theory Spec2Isabelle
  imports Main
begin

section \<open>The authentication service of E-Shop (src/services/auth.js)\<close>

text \<open>
  The class \<open>AuthService\<close> forwards every call to the Firebase client SDK.  The SDK is
  third-party code: its functions are parameters of the model (the record \<open>sdk\<close>), each
  a function on the SDK's own state (the \<open>world\<close>) that settles either with a value
  (\<open>Inr\<close>) or with a thrown value (\<open>Inl\<close>).  An \<^verbatim>\<open>async\<close> method is a
  function from the state before the call to the settled promise and the state after it;
  every \<^verbatim>\<open>await\<close> is run to completion before the next statement, and calls of
  other clients that might interleave at an \<^verbatim>\<open>await\<close> are not modelled.
\<close>

subsection \<open>Values\<close>

text \<open>Arguments are untyped in JavaScript; the service only forwards them.\<close>

datatype js_value = JsUndefined | JsNull | JsString string

text \<open>
  Thrown values.  \<open>Error msg\<close> is \<^verbatim>\<open>new Error(msg)\<close>; \<open>FirebaseError code\<close> and
  \<open>TypeError msg\<close> are what the SDK may reject with; \<open>NotImplementedError\<close> is the
  error of the helper \<^verbatim>\<open>utils/UnimplementedError\<close>.
\<close>

datatype js_error = FirebaseError string | TypeError string | Error string | NotImplementedError

text \<open>
  The SDK's \<^verbatim>\<open>User\<close>: the service reads \<^verbatim>\<open>emailVerified\<close> and nothing else.
  A \<^verbatim>\<open>UserCredential\<close> carries the user.
\<close>

record User =
  uid :: string
  emailVerified :: bool

record UserCredential =
  user :: User

text \<open>The two handles the constructor stores; they are references into the SDK's state.\<close>

datatype FirebaseApp = AppHandle nat

datatype Auth = AuthHandle nat

record AuthService =
  firebaseApp :: FirebaseApp
  auth :: Auth

subsection \<open>The imported SDK functions\<close>

record ('cfg, 'w) sdk =
  sdk_initializeApp :: "'cfg \<Rightarrow> FirebaseApp"
  sdk_getAuth :: "FirebaseApp \<Rightarrow> Auth"
  sdk_createUserWithEmailAndPassword ::
    "Auth \<Rightarrow> js_value \<Rightarrow> js_value \<Rightarrow> 'w \<Rightarrow> (js_error + UserCredential) \<times> 'w"
  sdk_signInWithEmailAndPassword ::
    "Auth \<Rightarrow> js_value \<Rightarrow> js_value \<Rightarrow> 'w \<Rightarrow> (js_error + UserCredential) \<times> 'w"
  sdk_signOut :: "Auth \<Rightarrow> 'w \<Rightarrow> (js_error + unit) \<times> 'w"
  sdk_sendEmailVerification :: "User option \<Rightarrow> 'w \<Rightarrow> (js_error + unit) \<times> 'w"
  sdk_sendPasswordResetEmail :: "Auth \<Rightarrow> js_value \<Rightarrow> 'w \<Rightarrow> (js_error + unit) \<times> 'w"
  sdk_currentUser :: "Auth \<Rightarrow> 'w \<Rightarrow> User option"

text \<open>
  The log of SDK calls an operation makes, each with how it settled.  The log is what
  "sends a notification", "performs no logout" and "is not retried" are stated on.
\<close>

datatype sdk_call =
    CreateUserWithEmailAndPassword Auth js_value js_value
  | SignInWithEmailAndPassword Auth js_value js_value
  | SignOut Auth
  | SendEmailVerification "User option"
  | SendPasswordResetEmail Auth js_value

datatype settled = Resolved | Rejected js_error

definition settled_of :: "js_error + 'a \<Rightarrow> settled" where
  "settled_of r = (case r of Inl e \<Rightarrow> Rejected e | Inr v \<Rightarrow> Resolved)"

fun is_SignOut :: "sdk_call \<times> settled \<Rightarrow> bool" where
  "is_SignOut (SignOut a, r) = True"
| "is_SignOut (c, r) = False"

fun is_SendEmailVerification :: "sdk_call \<times> settled \<Rightarrow> bool" where
  "is_SendEmailVerification (SendEmailVerification u, r) = True"
| "is_SendEmailVerification (c, r) = False"

subsection \<open>State and control flow\<close>

record 'w state =
  self :: AuthService
  world :: 'w
  calls :: "(sdk_call \<times> settled) list"

type_synonym ('w, 'a) async = "'w state \<Rightarrow> (js_error + 'a) \<times> 'w state"

definition js_return :: "'a \<Rightarrow> ('w, 'a) async" where
  "js_return v s = (Inr v, s)"

definition js_throw :: "js_error \<Rightarrow> ('w, 'a) async" where
  "js_throw e s = (Inl e, s)"

text \<open>Sequencing: the rest of the body runs only when the first part did not throw.\<close>

definition await_then :: "('w, 'a) async \<Rightarrow> ('a \<Rightarrow> ('w, 'b) async) \<Rightarrow> ('w, 'b) async" where
  "await_then m k s = (case m s of (Inl e, s') \<Rightarrow> (Inl e, s') | (Inr v, s') \<Rightarrow> k v s')"

text \<open>\<^verbatim>\<open>try { m } catch (error) { h }\<close>\<close>

definition try_catch :: "('w, 'a) async \<Rightarrow> (js_error \<Rightarrow> ('w, 'a) async) \<Rightarrow> ('w, 'a) async" where
  "try_catch m h s = (case m s of (Inl e, s') \<Rightarrow> h e s' | (Inr v, s') \<Rightarrow> (Inr v, s'))"

text \<open>Reading \<^verbatim>\<open>this\<close>, and the property \<^verbatim>\<open>currentUser\<close> of the auth object.\<close>

definition get_this :: "('w, AuthService) async" where
  "get_this s = (Inr (self s), s)"

definition get_currentUser :: "('cfg, 'w) sdk \<Rightarrow> Auth \<Rightarrow> ('w, User option) async" where
  "get_currentUser sdk a s = (Inr (sdk_currentUser sdk a (world s)), s)"

text \<open>Awaiting an SDK function: it acts on the world, and the call is logged.\<close>

definition await_sdk :: "sdk_call \<Rightarrow> ('w \<Rightarrow> (js_error + 'a) \<times> 'w) \<Rightarrow> ('w, 'a) async" where
  "await_sdk c f s =
     (case f (world s) of
        (r, w') \<Rightarrow> (r, s\<lparr>world := w', calls := calls s @ [(c, settled_of r)]\<rparr>))"

text \<open>A synchronous call that returns or throws without touching the state.\<close>

definition js_call :: "js_error + 'a \<Rightarrow> ('w, 'a) async" where
  "js_call r s = (r, s)"

definition new_calls :: "'w state \<Rightarrow> 'w state \<Rightarrow> (sdk_call \<times> settled) list" where
  "new_calls s s' = drop (length (calls s)) (calls s')"

subsection \<open>The class\<close>

text \<open>
  The constructor (lines 29-32).  \<^verbatim>\<open>firebaseConfig\<close> is imported from
  \<^verbatim>\<open>constants/firebaseConfig\<close> and is a parameter here.
\<close>

definition constructor :: "('cfg, 'w) sdk \<Rightarrow> 'cfg \<Rightarrow> AuthService" where
  "constructor sdk firebaseConfig =
     (let app = sdk_initializeApp sdk firebaseConfig
      in \<lparr>firebaseApp = app, auth = sdk_getAuth sdk app\<rparr>)"

text \<open>\<^verbatim>\<open>register\<close> (lines 42-55).\<close>

definition register :: "('cfg, 'w) sdk \<Rightarrow> js_value \<Rightarrow> js_value \<Rightarrow> ('w, User) async" where
  "register sdk email password =
     try_catch
       (await_then get_this (\<lambda>this.
        await_then
          (await_sdk (CreateUserWithEmailAndPassword (auth this) email password)
             (sdk_createUserWithEmailAndPassword sdk (auth this) email password))
          (\<lambda>userCredential.
        await_then
          (await_sdk (SendEmailVerification (Some (user userCredential)))
             (sdk_sendEmailVerification sdk (Some (user userCredential))))
          (\<lambda>u. js_return (user userCredential)))))
       (\<lambda>error. js_throw error)"

text \<open>\<^verbatim>\<open>logout\<close> (lines 63-69).\<close>

definition logout :: "('cfg, 'w) sdk \<Rightarrow> ('w, unit) async" where
  "logout sdk =
     try_catch
       (await_then get_this (\<lambda>this.
        await_sdk (SignOut (auth this)) (sdk_signOut sdk (auth this))))
       (\<lambda>error. js_throw error)"

text \<open>\<^verbatim>\<open>login\<close> (lines 79-96).\<close>

definition login :: "('cfg, 'w) sdk \<Rightarrow> js_value \<Rightarrow> js_value \<Rightarrow> ('w, User) async" where
  "login sdk email password =
     try_catch
       (await_then get_this (\<lambda>this.
        await_then
          (await_sdk (SignInWithEmailAndPassword (auth this) email password)
             (sdk_signInWithEmailAndPassword sdk (auth this) email password))
          (\<lambda>userCredential.
             if emailVerified (user userCredential)
             then js_return (user userCredential)
             else await_then (logout sdk) (\<lambda>u. js_throw (Error ''Email not verified'')))))
       (\<lambda>error. js_throw error)"

text \<open>\<^verbatim>\<open>sendEmailVerification\<close> (lines 104-111): the current user is passed on as it is.\<close>

definition sendEmailVerification :: "('cfg, 'w) sdk \<Rightarrow> ('w, unit) async" where
  "sendEmailVerification sdk =
     try_catch
       (await_then get_this (\<lambda>this.
        await_then (get_currentUser sdk (auth this)) (\<lambda>user.
        await_sdk (SendEmailVerification user) (sdk_sendEmailVerification sdk user))))
       (\<lambda>error. js_throw error)"

text \<open>\<^verbatim>\<open>forgotPassword\<close> (lines 120-126).\<close>

definition forgotPassword :: "('cfg, 'w) sdk \<Rightarrow> js_value \<Rightarrow> ('w, unit) async" where
  "forgotPassword sdk email =
     try_catch
       (await_then get_this (\<lambda>this.
        await_sdk (SendPasswordResetEmail (auth this) email)
          (sdk_sendPasswordResetEmail sdk (auth this) email)))
       (\<lambda>error. js_throw error)"

text \<open>
  Modelled from the spec: the helper \<^verbatim>\<open>UnimplementedError\<close> of
  \<^verbatim>\<open>src/utils/UnimplementedError\<close> is not among the source files.  The spec says of it:
  "\<open>NotImplementedError\<close>: raised locally and unconditionally for the two social-login
  placeholders", "regardless of argument".
\<close>

definition UnimplementedError :: "js_value \<Rightarrow> js_error + unit" where
  "UnimplementedError provider = Inl NotImplementedError"

text \<open>
  \<^verbatim>\<open>signInWithGoogle\<close> and \<^verbatim>\<open>signInWithFacebook\<close> (lines 134-146): the body
  is the call of the helper; an async function whose body ends resolves with undefined.
\<close>

definition signInWithGoogle :: "js_value \<Rightarrow> ('w, unit) async" where
  "signInWithGoogle provider = await_then (js_call (UnimplementedError provider)) (\<lambda>u. js_return ())"

definition signInWithFacebook :: "js_value \<Rightarrow> ('w, unit) async" where
  "signInWithFacebook provider = await_then (js_call (UnimplementedError provider)) (\<lambda>u. js_return ())"

subsection \<open>Sequences of calls on one service object\<close>

datatype method_call =
    Register js_value js_value
  | Logout
  | Login js_value js_value
  | SendEmailVerificationCall
  | ForgotPassword js_value
  | SignInWithGoogle js_value
  | SignInWithFacebook js_value

text \<open>What a call settles with: the user (\<open>Some\<close>) or undefined (\<open>None\<close>).\<close>

definition with_user :: "(js_error + User) \<times> 'w state \<Rightarrow> (js_error + User option) \<times> 'w state" where
  "with_user p = (case p of (Inl e, s) \<Rightarrow> (Inl e, s) | (Inr v, s) \<Rightarrow> (Inr (Some v), s))"

definition with_undefined :: "(js_error + unit) \<times> 'w state \<Rightarrow> (js_error + User option) \<times> 'w state" where
  "with_undefined p = (case p of (Inl e, s) \<Rightarrow> (Inl e, s) | (Inr v, s) \<Rightarrow> (Inr None, s))"

fun invoke :: "('cfg, 'w) sdk \<Rightarrow> method_call \<Rightarrow> 'w state \<Rightarrow> (js_error + User option) \<times> 'w state" where
  "invoke sdk (Register email password) s = with_user (register sdk email password s)"
| "invoke sdk Logout s = with_undefined (logout sdk s)"
| "invoke sdk (Login email password) s = with_user (login sdk email password s)"
| "invoke sdk SendEmailVerificationCall s = with_undefined (sendEmailVerification sdk s)"
| "invoke sdk (ForgotPassword email) s = with_undefined (forgotPassword sdk email s)"
| "invoke sdk (SignInWithGoogle provider) s = with_undefined (signInWithGoogle provider s)"
| "invoke sdk (SignInWithFacebook provider) s = with_undefined (signInWithFacebook provider s)"

fun run :: "('cfg, 'w) sdk \<Rightarrow> method_call list \<Rightarrow> 'w state \<Rightarrow> 'w state" where
  "run sdk [] s = s"
| "run sdk (c # cs) s = run sdk cs (snd (invoke sdk c s))"

subsection \<open>A test double of the SDK\<close>

text \<open>
  A stand-in for the SDK with fixed outcomes, used for the concrete runs below.  Its
  world is the signed-in user: creating an account or signing in sets it, a sign-out that
  succeeds clears it, and a rejected call leaves it as it was.
\<close>

definition stub_sdk ::
  "(js_error + UserCredential) \<Rightarrow> (js_error + UserCredential) \<Rightarrow> (js_error + unit) \<Rightarrow>
   (User option \<Rightarrow> js_error + unit) \<Rightarrow> (js_error + unit) \<Rightarrow> (unit, User option) sdk" where
  "stub_sdk created signedIn signedOut verification reset =
     \<lparr>sdk_initializeApp = (\<lambda>c. AppHandle 0),
      sdk_getAuth = (\<lambda>app. AuthHandle 0),
      sdk_createUserWithEmailAndPassword =
        (\<lambda>a email password w. (created, case created of Inl e \<Rightarrow> w | Inr uc \<Rightarrow> Some (user uc))),
      sdk_signInWithEmailAndPassword =
        (\<lambda>a email password w. (signedIn, case signedIn of Inl e \<Rightarrow> w | Inr uc \<Rightarrow> Some (user uc))),
      sdk_signOut = (\<lambda>a w. (signedOut, case signedOut of Inl e \<Rightarrow> w | Inr u \<Rightarrow> None)),
      sdk_sendEmailVerification = (\<lambda>u w. (verification u, w)),
      sdk_sendPasswordResetEmail = (\<lambda>a email w. (reset, w)),
      sdk_currentUser = (\<lambda>a w. w)\<rparr>"

definition fresh :: "'w \<Rightarrow> 'w state" where
  "fresh w = \<lparr>self = \<lparr>firebaseApp = AppHandle 0, auth = AuthHandle 0\<rparr>, world = w, calls = []\<rparr>"

definition alice :: User where
  "alice = \<lparr>uid = ''alice'', emailVerified = True\<rparr>"

definition bob :: User where
  "bob = \<lparr>uid = ''bob'', emailVerified = False\<rparr>"

section \<open>What each method does, in terms of the SDK's answers\<close>

lemma register_run:
  "register sdk email password s =
     (case sdk_createUserWithEmailAndPassword sdk (auth (self s)) email password (world s) of
        (Inl e, w1) \<Rightarrow>
          (Inl e, s\<lparr>world := w1, calls := calls s @
             [(CreateUserWithEmailAndPassword (auth (self s)) email password, Rejected e)]\<rparr>)
      | (Inr uc, w1) \<Rightarrow>
          (case sdk_sendEmailVerification sdk (Some (user uc)) w1 of
             (r, w2) \<Rightarrow>
               ((case r of Inl e \<Rightarrow> Inl e | Inr u \<Rightarrow> Inr (user uc)),
                s\<lparr>world := w2, calls := calls s @
                  [(CreateUserWithEmailAndPassword (auth (self s)) email password, Resolved),
                   (SendEmailVerification (Some (user uc)), settled_of r)]\<rparr>)))"
  by (simp add: register_def try_catch_def await_then_def get_this_def await_sdk_def
      js_return_def js_throw_def settled_of_def split: prod.splits sum.splits)

lemma logout_run:
  "logout sdk s =
     (case sdk_signOut sdk (auth (self s)) (world s) of
        (r, w1) \<Rightarrow>
          (r, s\<lparr>world := w1, calls := calls s @ [(SignOut (auth (self s)), settled_of r)]\<rparr>))"
  by (simp add: logout_def try_catch_def await_then_def get_this_def await_sdk_def
      js_throw_def settled_of_def split: prod.splits sum.splits)

lemma login_run:
  "login sdk email password s =
     (case sdk_signInWithEmailAndPassword sdk (auth (self s)) email password (world s) of
        (Inl e, w1) \<Rightarrow>
          (Inl e, s\<lparr>world := w1, calls := calls s @
             [(SignInWithEmailAndPassword (auth (self s)) email password, Rejected e)]\<rparr>)
      | (Inr uc, w1) \<Rightarrow>
          if emailVerified (user uc)
          then (Inr (user uc), s\<lparr>world := w1, calls := calls s @
                  [(SignInWithEmailAndPassword (auth (self s)) email password, Resolved)]\<rparr>)
          else (case sdk_signOut sdk (auth (self s)) w1 of
                  (r, w2) \<Rightarrow>
                    (Inl (case r of Inl e \<Rightarrow> e | Inr u \<Rightarrow> Error ''Email not verified''),
                     s\<lparr>world := w2, calls := calls s @
                       [(SignInWithEmailAndPassword (auth (self s)) email password, Resolved),
                        (SignOut (auth (self s)), settled_of r)]\<rparr>)))"
  by (simp add: login_def logout_run try_catch_def await_then_def get_this_def await_sdk_def
      js_return_def js_throw_def settled_of_def split: prod.splits sum.splits)

lemma sendEmailVerification_run:
  "sendEmailVerification sdk s =
     (case sdk_sendEmailVerification sdk (sdk_currentUser sdk (auth (self s)) (world s)) (world s) of
        (r, w1) \<Rightarrow>
          (r, s\<lparr>world := w1, calls := calls s @
             [(SendEmailVerification (sdk_currentUser sdk (auth (self s)) (world s)),
               settled_of r)]\<rparr>))"
  by (simp add: sendEmailVerification_def try_catch_def await_then_def get_this_def
      get_currentUser_def await_sdk_def js_throw_def settled_of_def
      split: prod.splits sum.splits)

lemma forgotPassword_run:
  "forgotPassword sdk email s =
     (case sdk_sendPasswordResetEmail sdk (auth (self s)) email (world s) of
        (r, w1) \<Rightarrow>
          (r, s\<lparr>world := w1, calls := calls s @
             [(SendPasswordResetEmail (auth (self s)) email, settled_of r)]\<rparr>))"
  by (simp add: forgotPassword_def try_catch_def await_then_def get_this_def await_sdk_def
      js_throw_def settled_of_def split: prod.splits sum.splits)

lemma signInWithGoogle_run: "signInWithGoogle provider s = (Inl NotImplementedError, s)"
  by (simp add: signInWithGoogle_def await_then_def js_call_def UnimplementedError_def)

lemma signInWithFacebook_run: "signInWithFacebook provider s = (Inl NotImplementedError, s)"
  by (simp add: signInWithFacebook_def await_then_def js_call_def UnimplementedError_def)

lemma new_calls_append [simp]:
  "new_calls s (s\<lparr>world := w, calls := calls s @ cs\<rparr>) = cs"
  by (simp add: new_calls_def)

lemma new_calls_same [simp]: "new_calls s s = []"
  by (simp add: new_calls_def)

lemma invoke_self: "self (snd (invoke sdk c s)) = self s"
  by (cases c)
    (simp_all add: register_run logout_run login_run sendEmailVerification_run
      forgotPassword_run signInWithGoogle_run signInWithFacebook_run
      with_user_def with_undefined_def split: prod.splits sum.splits)

lemma run_self: "self (run sdk cs s) = self s"
  by (induction cs arbitrary: s) (simp_all add: invoke_self)

section \<open>The claims\<close>

text \<open>
  C4.  When the SDK signs the user in and the user's \<open>emailVerified\<close> is true,
  \<open>login\<close> resolves with that user; the only SDK call it made is the sign-in, so no
  logout was performed, and the SDK is left in the state the sign-in produced.
\<close>

theorem login_verified_returns_user:
  assumes "sdk_signInWithEmailAndPassword sdk (auth (self s)) email password (world s)
             = (Inr uc, w1)"
    and "emailVerified (user uc)"
  shows "login sdk email password s =
           (Inr (user uc),
            s\<lparr>world := w1, calls := calls s @
              [(SignInWithEmailAndPassword (auth (self s)) email password, Resolved)]\<rparr>)
         \<and> filter is_SignOut (new_calls s (snd (login sdk email password s))) = []"
  using assms by (simp add: login_run)

theorem login_verified_returns_user_witness:
  "sdk_signInWithEmailAndPassword
      (stub_sdk (Inl (Error ''unused'')) (Inr \<lparr>user = alice\<rparr>) (Inr ()) (\<lambda>u. Inr ()) (Inr ()))
      (auth (self (fresh None))) (JsString ''alice@shop.example'') (JsString ''secret'')
      (world (fresh None))
     = (Inr \<lparr>user = alice\<rparr>, Some alice)
   \<and> emailVerified (user \<lparr>user = alice\<rparr>)
   \<and> login (stub_sdk (Inl (Error ''unused'')) (Inr \<lparr>user = alice\<rparr>) (Inr ()) (\<lambda>u. Inr ()) (Inr ()))
        (JsString ''alice@shop.example'') (JsString ''secret'') (fresh None)
      = (Inr alice,
         \<lparr>self = \<lparr>firebaseApp = AppHandle 0, auth = AuthHandle 0\<rparr>, world = Some alice,
          calls = [(SignInWithEmailAndPassword (AuthHandle 0) (JsString ''alice@shop.example'')
                      (JsString ''secret''), Resolved)]\<rparr>)"
proof -
  let ?sdk = "stub_sdk (Inl (Error ''unused'')) (Inr \<lparr>user = alice\<rparr>) (Inr ()) (\<lambda>u. Inr ()) (Inr ())"
  have h1: "sdk_signInWithEmailAndPassword ?sdk (auth (self (fresh None)))
              (JsString ''alice@shop.example'') (JsString ''secret'') (world (fresh None))
            = (Inr \<lparr>user = alice\<rparr>, Some alice)"
    by (simp add: stub_sdk_def fresh_def)
  have h2: "emailVerified (user \<lparr>user = alice\<rparr>)"
    by (simp add: alice_def)
  from login_verified_returns_user [OF h1 h2] h1 h2 show ?thesis
    by (simp add: fresh_def)
qed

text \<open>
  C1 (as amended).  When the SDK signs the user in and \<open>emailVerified\<close> is false,
  \<open>login\<close> calls \<open>signOut\<close> once, after the sign-in, and then always fails: with
  \<open>Error ''Email not verified''\<close> when the sign-out resolved, and with the sign-out's own
  error when it was rejected; the SDK is left in the state the sign-out produced.  The
  flag is read only after the sign-in has resolved: when the sign-in is rejected, \<open>login\<close>
  fails with that error after this one call, and no sign-out is made.
\<close>

theorem login_unverified_signs_out_and_fails:
  "(sdk_signInWithEmailAndPassword sdk (auth (self s)) email password (world s) = (Inr uc, w1)
      \<and> \<not> emailVerified (user uc)
      \<and> sdk_signOut sdk (auth (self s)) w1 = (r, w2)
    \<longrightarrow> login sdk email password s =
          (Inl (case r of Inl e \<Rightarrow> e | Inr u \<Rightarrow> Error ''Email not verified''),
           s\<lparr>world := w2, calls := calls s @
             [(SignInWithEmailAndPassword (auth (self s)) email password, Resolved),
              (SignOut (auth (self s)), settled_of r)]\<rparr>))
   \<and> (sdk_signInWithEmailAndPassword sdk (auth (self s)) email password (world s) = (Inl e', w1')
    \<longrightarrow> login sdk email password s =
          (Inl e',
           s\<lparr>world := w1', calls := calls s @
             [(SignInWithEmailAndPassword (auth (self s)) email password, Rejected e')]\<rparr>))"
  by (simp add: login_run)

theorem login_unverified_signs_out_and_fails_witness:
  "login (stub_sdk (Inl (Error ''unused'')) (Inr \<lparr>user = bob\<rparr>) (Inr ()) (\<lambda>u. Inr ()) (Inr ()))
      (JsString ''bob@shop.example'') (JsString ''secret'') (fresh None)
     = (Inl (Error ''Email not verified''),
        \<lparr>self = \<lparr>firebaseApp = AppHandle 0, auth = AuthHandle 0\<rparr>, world = None,
         calls = [(SignInWithEmailAndPassword (AuthHandle 0) (JsString ''bob@shop.example'')
                     (JsString ''secret''), Resolved),
                  (SignOut (AuthHandle 0), Resolved)]\<rparr>)
   \<and> login (stub_sdk (Inl (Error ''unused'')) (Inl (FirebaseError ''auth/wrong-password''))
          (Inr ()) (\<lambda>u. Inr ()) (Inr ()))
      (JsString ''bob@shop.example'') (JsString ''guess'') (fresh None)
     = (Inl (FirebaseError ''auth/wrong-password''),
        \<lparr>self = \<lparr>firebaseApp = AppHandle 0, auth = AuthHandle 0\<rparr>, world = None,
         calls = [(SignInWithEmailAndPassword (AuthHandle 0) (JsString ''bob@shop.example'')
                     (JsString ''guess''), Rejected (FirebaseError ''auth/wrong-password''))]\<rparr>)"
proof -
  let ?ok = "stub_sdk (Inl (Error ''unused'')) (Inr \<lparr>user = bob\<rparr>) (Inr ()) (\<lambda>u. Inr ()) (Inr ())"
  let ?no = "stub_sdk (Inl (Error ''unused'')) (Inl (FirebaseError ''auth/wrong-password''))
               (Inr ()) (\<lambda>u. Inr ()) (Inr ())"
  have a: "sdk_signInWithEmailAndPassword ?ok (auth (self (fresh None)))
             (JsString ''bob@shop.example'') (JsString ''secret'') (world (fresh None))
           = (Inr \<lparr>user = bob\<rparr>, Some bob)
         \<and> \<not> emailVerified (user \<lparr>user = bob\<rparr>)
         \<and> sdk_signOut ?ok (auth (self (fresh None))) (Some bob) = (Inr (), None)"
    by (simp add: stub_sdk_def fresh_def bob_def)
  have b: "sdk_signInWithEmailAndPassword ?no (auth (self (fresh None)))
             (JsString ''bob@shop.example'') (JsString ''guess'') (world (fresh None))
           = (Inl (FirebaseError ''auth/wrong-password''), None)"
    by (simp add: stub_sdk_def fresh_def)
  from login_unverified_signs_out_and_fails
         [where sdk = ?ok and s = "fresh None" and email = "JsString ''bob@shop.example''"
            and password = "JsString ''secret''" and uc = "\<lparr>user = bob\<rparr>"
            and ?w1.0 = "Some bob" and r = "Inr ()" and ?w2.0 = None,
          THEN conjunct1, rule_format, OF a]
       login_unverified_signs_out_and_fails
         [where sdk = ?no and s = "fresh None" and email = "JsString ''bob@shop.example''"
            and password = "JsString ''guess''"
            and e' = "FirebaseError ''auth/wrong-password''" and w1' = None,
          THEN conjunct2, rule_format, OF b]
  show ?thesis
    by (simp add: fresh_def settled_of_def)
qed

text \<open>
  C1 as the spec states it fails where the compensating sign-out is rejected: the user
  is signed in and unverified, \<open>login\<close> does not fail with \<open>Error ''Email not verified''\<close>,
  and the session is still there afterwards.
\<close>

theorem login_unverified_counterexample:
  "sdk_signInWithEmailAndPassword
      (stub_sdk (Inl (Error ''unused'')) (Inr \<lparr>user = bob\<rparr>)
         (Inl (FirebaseError ''auth/network-request-failed'')) (\<lambda>u. Inr ()) (Inr ()))
      (AuthHandle 0) (JsString ''bob@shop.example'') (JsString ''secret'') None
     = (Inr \<lparr>user = bob\<rparr>, Some bob)
   \<and> \<not> emailVerified (user \<lparr>user = bob\<rparr>)
   \<and> fst (login
        (stub_sdk (Inl (Error ''unused'')) (Inr \<lparr>user = bob\<rparr>)
           (Inl (FirebaseError ''auth/network-request-failed'')) (\<lambda>u. Inr ()) (Inr ()))
        (JsString ''bob@shop.example'') (JsString ''secret'') (fresh None))
      \<noteq> Inl (Error ''Email not verified'')
   \<and> sdk_currentUser
        (stub_sdk (Inl (Error ''unused'')) (Inr \<lparr>user = bob\<rparr>)
           (Inl (FirebaseError ''auth/network-request-failed'')) (\<lambda>u. Inr ()) (Inr ()))
        (AuthHandle 0)
        (world (snd (login
           (stub_sdk (Inl (Error ''unused'')) (Inr \<lparr>user = bob\<rparr>)
              (Inl (FirebaseError ''auth/network-request-failed'')) (\<lambda>u. Inr ()) (Inr ()))
           (JsString ''bob@shop.example'') (JsString ''secret'') (fresh None))))
      = Some bob"
  by (simp add: login_run stub_sdk_def fresh_def bob_def)

text \<open>
  C3 (as amended).  When \<open>login\<close> finds the email unverified and the compensating
  sign-out is rejected, the sign-out's error is what the caller receives, unchanged:
  it passes through the \<^verbatim>\<open>catch\<close> of \<open>logout\<close> and the \<^verbatim>\<open>catch\<close> of
  \<open>login\<close>, and \<^verbatim>\<open>throw new Error("Email not verified")\<close> is never reached.
\<close>

theorem login_surfaces_logout_failure:
  assumes "sdk_signInWithEmailAndPassword sdk (auth (self s)) email password (world s)
             = (Inr uc, w1)"
    and "\<not> emailVerified (user uc)"
    and "sdk_signOut sdk (auth (self s)) w1 = (Inl e, w2)"
  shows "fst (login sdk email password s) = Inl e
         \<and> fst (logout sdk (s\<lparr>world := w1, calls := calls s @
                [(SignInWithEmailAndPassword (auth (self s)) email password, Resolved)]\<rparr>))
             = Inl e"
  using assms by (simp add: login_run logout_run)

theorem login_surfaces_logout_failure_witness:
  "fst (login
     (stub_sdk (Inl (Error ''unused'')) (Inr \<lparr>user = bob\<rparr>)
        (Inl (FirebaseError ''auth/internal-error'')) (\<lambda>u. Inr ()) (Inr ()))
     (JsString ''bob@shop.example'') (JsString ''secret'') (fresh None))
   = Inl (FirebaseError ''auth/internal-error'')"
proof -
  let ?sdk = "stub_sdk (Inl (Error ''unused'')) (Inr \<lparr>user = bob\<rparr>)
                (Inl (FirebaseError ''auth/internal-error'')) (\<lambda>u. Inr ()) (Inr ())"
  have h1: "sdk_signInWithEmailAndPassword ?sdk (auth (self (fresh None)))
              (JsString ''bob@shop.example'') (JsString ''secret'') (world (fresh None))
            = (Inr \<lparr>user = bob\<rparr>, Some bob)"
    by (simp add: stub_sdk_def fresh_def)
  have h2: "\<not> emailVerified (user \<lparr>user = bob\<rparr>)"
    by (simp add: bob_def)
  have h3: "sdk_signOut ?sdk (auth (self (fresh None))) (Some bob)
            = (Inl (FirebaseError ''auth/internal-error''), Some bob)"
    by (simp add: stub_sdk_def)
  from login_surfaces_logout_failure [OF h1 h2 h3] show ?thesis
    by simp
qed

text \<open>
  C3 as the spec states it fails: with the sign-in resolved for an unverified user and
  the sign-out rejected, the caller receives the sign-out's error and not
  \<open>Error ''Email not verified''\<close>.
\<close>

theorem login_logout_failure_counterexample:
  "calls (snd (login
     (stub_sdk (Inl (Error ''unused'')) (Inr \<lparr>user = bob\<rparr>)
        (Inl (FirebaseError ''auth/internal-error'')) (\<lambda>u. Inr ()) (Inr ()))
     (JsString ''bob@shop.example'') (JsString ''secret'') (fresh None)))
   = [(SignInWithEmailAndPassword (AuthHandle 0) (JsString ''bob@shop.example'')
         (JsString ''secret''), Resolved),
      (SignOut (AuthHandle 0), Rejected (FirebaseError ''auth/internal-error''))]
   \<and> fst (login
       (stub_sdk (Inl (Error ''unused'')) (Inr \<lparr>user = bob\<rparr>)
          (Inl (FirebaseError ''auth/internal-error'')) (\<lambda>u. Inr ()) (Inr ()))
       (JsString ''bob@shop.example'') (JsString ''secret'') (fresh None))
     = Inl (FirebaseError ''auth/internal-error'')
   \<and> fst (login
       (stub_sdk (Inl (Error ''unused'')) (Inr \<lparr>user = bob\<rparr>)
          (Inl (FirebaseError ''auth/internal-error'')) (\<lambda>u. Inr ()) (Inr ()))
       (JsString ''bob@shop.example'') (JsString ''secret'') (fresh None))
     \<noteq> Inl (Error ''Email not verified'')"
  by (simp add: login_run stub_sdk_def fresh_def bob_def settled_of_def)

text \<open>
  C5 (as amended).  When the SDK accepts the account creation, \<open>register\<close> makes
  exactly one \<open>sendEmailVerification\<close> call, for the created user, after the creation.
  It resolves with the created user when that call resolves, and fails with that call's
  error when it is rejected.
\<close>

theorem register_requests_one_verification:
  assumes "sdk_createUserWithEmailAndPassword sdk (auth (self s)) email password (world s)
             = (Inr uc, w1)"
    and "sdk_sendEmailVerification sdk (Some (user uc)) w1 = (r, w2)"
  shows "register sdk email password s =
           ((case r of Inl e \<Rightarrow> Inl e | Inr u \<Rightarrow> Inr (user uc)),
            s\<lparr>world := w2, calls := calls s @
              [(CreateUserWithEmailAndPassword (auth (self s)) email password, Resolved),
               (SendEmailVerification (Some (user uc)), settled_of r)]\<rparr>)
         \<and> length (filter is_SendEmailVerification
                     (new_calls s (snd (register sdk email password s)))) = 1"
  using assms by (simp add: register_run)

theorem register_requests_one_verification_witness:
  "register (stub_sdk (Inr \<lparr>user = bob\<rparr>) (Inl (Error ''unused'')) (Inr ()) (\<lambda>u. Inr ()) (Inr ()))
      (JsString ''bob@shop.example'') (JsString ''secret'') (fresh None)
     = (Inr bob,
        \<lparr>self = \<lparr>firebaseApp = AppHandle 0, auth = AuthHandle 0\<rparr>, world = Some bob,
         calls = [(CreateUserWithEmailAndPassword (AuthHandle 0) (JsString ''bob@shop.example'')
                     (JsString ''secret''), Resolved),
                  (SendEmailVerification (Some bob), Resolved)]\<rparr>)"
proof -
  let ?sdk = "stub_sdk (Inr \<lparr>user = bob\<rparr>) (Inl (Error ''unused'')) (Inr ()) (\<lambda>u. Inr ()) (Inr ())"
  have h1: "sdk_createUserWithEmailAndPassword ?sdk (auth (self (fresh None)))
              (JsString ''bob@shop.example'') (JsString ''secret'') (world (fresh None))
            = (Inr \<lparr>user = bob\<rparr>, Some bob)"
    by (simp add: stub_sdk_def fresh_def)
  have h2: "sdk_sendEmailVerification ?sdk (Some (user \<lparr>user = bob\<rparr>)) (Some bob)
            = (Inr (), Some bob)"
    by (simp add: stub_sdk_def)
  from register_requests_one_verification [OF h1 h2] show ?thesis
    by (simp add: fresh_def settled_of_def)
qed

text \<open>
  C5 as the spec states it fails where the SDK accepts the account creation and then
  rejects the verification request: \<open>register\<close> does not return the created user.
\<close>

theorem register_returns_user_counterexample:
  "fst (sdk_createUserWithEmailAndPassword
          (stub_sdk (Inr \<lparr>user = bob\<rparr>) (Inl (Error ''unused'')) (Inr ())
             (\<lambda>u. Inl (FirebaseError ''auth/too-many-requests'')) (Inr ()))
          (AuthHandle 0) (JsString ''bob@shop.example'') (JsString ''secret'') None)
     = Inr \<lparr>user = bob\<rparr>
   \<and> fst (register
          (stub_sdk (Inr \<lparr>user = bob\<rparr>) (Inl (Error ''unused'')) (Inr ())
             (\<lambda>u. Inl (FirebaseError ''auth/too-many-requests'')) (Inr ()))
          (JsString ''bob@shop.example'') (JsString ''secret'') (fresh None))
     = Inl (FirebaseError ''auth/too-many-requests'')
   \<and> fst (register
          (stub_sdk (Inr \<lparr>user = bob\<rparr>) (Inl (Error ''unused'')) (Inr ())
             (\<lambda>u. Inl (FirebaseError ''auth/too-many-requests'')) (Inr ()))
          (JsString ''bob@shop.example'') (JsString ''secret'') (fresh None))
     \<noteq> Inr bob"
  by (simp add: register_run stub_sdk_def fresh_def)

text \<open>
  C6.  When the SDK rejects the account creation, \<open>register\<close> fails with that error:
  the creation is the only SDK call it made, so no verification request was sent.
\<close>

theorem register_rejected_sends_nothing:
  assumes "sdk_createUserWithEmailAndPassword sdk (auth (self s)) email password (world s)
             = (Inl e, w1)"
  shows "register sdk email password s =
           (Inl e,
            s\<lparr>world := w1, calls := calls s @
              [(CreateUserWithEmailAndPassword (auth (self s)) email password, Rejected e)]\<rparr>)
         \<and> filter is_SendEmailVerification
              (new_calls s (snd (register sdk email password s))) = []"
  using assms by (simp add: register_run)

theorem register_rejected_sends_nothing_witness:
  "register
      (stub_sdk (Inl (FirebaseError ''auth/email-already-in-use'')) (Inl (Error ''unused''))
         (Inr ()) (\<lambda>u. Inr ()) (Inr ()))
      (JsString ''alice@shop.example'') (JsString ''secret'') (fresh None)
     = (Inl (FirebaseError ''auth/email-already-in-use''),
        \<lparr>self = \<lparr>firebaseApp = AppHandle 0, auth = AuthHandle 0\<rparr>, world = None,
         calls = [(CreateUserWithEmailAndPassword (AuthHandle 0)
                     (JsString ''alice@shop.example'') (JsString ''secret''),
                   Rejected (FirebaseError ''auth/email-already-in-use''))]\<rparr>)"
proof -
  let ?sdk = "stub_sdk (Inl (FirebaseError ''auth/email-already-in-use''))
                (Inl (Error ''unused'')) (Inr ()) (\<lambda>u. Inr ()) (Inr ())"
  have h: "sdk_createUserWithEmailAndPassword ?sdk (auth (self (fresh None)))
             (JsString ''alice@shop.example'') (JsString ''secret'') (world (fresh None))
           = (Inl (FirebaseError ''auth/email-already-in-use''), None)"
    by (simp add: stub_sdk_def fresh_def)
  from register_rejected_sends_nothing [OF h] show ?thesis
    by (simp add: fresh_def)
qed

text \<open>
  C7.  In every operation of the service, an error the SDK signals is the error the
  caller receives, unchanged.  Each of the seven places where a method awaits an SDK
  function is covered: when that function is rejected with \<open>e\<close>, the method fails with
  \<open>e\<close>, the SDK is left in the state the rejected call produced, and the rejected call
  is the last call the method made (no recovery, no retry).
\<close>

theorem provider_error_surfaces_unchanged:
  "(sdk_createUserWithEmailAndPassword sdk (auth (self s)) email password (world s) = (Inl e, w1)
    \<longrightarrow> register sdk email password s =
          (Inl e,
           s\<lparr>world := w1, calls := calls s @
             [(CreateUserWithEmailAndPassword (auth (self s)) email password, Rejected e)]\<rparr>))
   \<and> (sdk_createUserWithEmailAndPassword sdk (auth (self s)) email password (world s) = (Inr uc, w1)
      \<and> sdk_sendEmailVerification sdk (Some (user uc)) w1 = (Inl e, w2)
    \<longrightarrow> register sdk email password s =
          (Inl e,
           s\<lparr>world := w2, calls := calls s @
             [(CreateUserWithEmailAndPassword (auth (self s)) email password, Resolved),
              (SendEmailVerification (Some (user uc)), Rejected e)]\<rparr>))
   \<and> (sdk_signInWithEmailAndPassword sdk (auth (self s)) email password (world s) = (Inl e, w1)
    \<longrightarrow> login sdk email password s =
          (Inl e,
           s\<lparr>world := w1, calls := calls s @
             [(SignInWithEmailAndPassword (auth (self s)) email password, Rejected e)]\<rparr>))
   \<and> (sdk_signInWithEmailAndPassword sdk (auth (self s)) email password (world s) = (Inr uc, w1)
      \<and> \<not> emailVerified (user uc)
      \<and> sdk_signOut sdk (auth (self s)) w1 = (Inl e, w2)
    \<longrightarrow> login sdk email password s =
          (Inl e,
           s\<lparr>world := w2, calls := calls s @
             [(SignInWithEmailAndPassword (auth (self s)) email password, Resolved),
              (SignOut (auth (self s)), Rejected e)]\<rparr>))
   \<and> (sdk_signOut sdk (auth (self s)) (world s) = (Inl e, w1)
    \<longrightarrow> logout sdk s =
          (Inl e, s\<lparr>world := w1, calls := calls s @ [(SignOut (auth (self s)), Rejected e)]\<rparr>))
   \<and> (sdk_sendEmailVerification sdk (sdk_currentUser sdk (auth (self s)) (world s)) (world s)
        = (Inl e, w1)
    \<longrightarrow> sendEmailVerification sdk s =
          (Inl e,
           s\<lparr>world := w1, calls := calls s @
             [(SendEmailVerification (sdk_currentUser sdk (auth (self s)) (world s)),
               Rejected e)]\<rparr>))
   \<and> (sdk_sendPasswordResetEmail sdk (auth (self s)) email (world s) = (Inl e, w1)
    \<longrightarrow> forgotPassword sdk email s =
          (Inl e,
           s\<lparr>world := w1, calls := calls s @
             [(SendPasswordResetEmail (auth (self s)) email, Rejected e)]\<rparr>))"
  by (simp add: register_run login_run logout_run sendEmailVerification_run
      forgotPassword_run settled_of_def)

theorem provider_error_surfaces_unchanged_witness:
  "fst (register
          (stub_sdk (Inl (FirebaseError ''auth/email-already-in-use''))
             (Inl (FirebaseError ''auth/wrong-password''))
             (Inl (FirebaseError ''auth/network-request-failed''))
             (\<lambda>u. Inl (FirebaseError ''auth/too-many-requests''))
             (Inl (FirebaseError ''auth/user-not-found'')))
          (JsString ''bob@shop.example'') (JsString ''secret'') (fresh None))
     = Inl (FirebaseError ''auth/email-already-in-use'')
   \<and> fst (register
          (stub_sdk (Inr \<lparr>user = bob\<rparr>) (Inr \<lparr>user = bob\<rparr>)
             (Inl (FirebaseError ''auth/network-request-failed''))
             (\<lambda>u. Inl (FirebaseError ''auth/too-many-requests'')) (Inr ()))
          (JsString ''bob@shop.example'') (JsString ''secret'') (fresh None))
     = Inl (FirebaseError ''auth/too-many-requests'')
   \<and> fst (login
          (stub_sdk (Inl (FirebaseError ''auth/email-already-in-use''))
             (Inl (FirebaseError ''auth/wrong-password''))
             (Inl (FirebaseError ''auth/network-request-failed''))
             (\<lambda>u. Inl (FirebaseError ''auth/too-many-requests''))
             (Inl (FirebaseError ''auth/user-not-found'')))
          (JsString ''bob@shop.example'') (JsString ''secret'') (fresh None))
     = Inl (FirebaseError ''auth/wrong-password'')
   \<and> fst (login
          (stub_sdk (Inr \<lparr>user = bob\<rparr>) (Inr \<lparr>user = bob\<rparr>)
             (Inl (FirebaseError ''auth/network-request-failed''))
             (\<lambda>u. Inl (FirebaseError ''auth/too-many-requests'')) (Inr ()))
          (JsString ''bob@shop.example'') (JsString ''secret'') (fresh None))
     = Inl (FirebaseError ''auth/network-request-failed'')
   \<and> fst (logout
          (stub_sdk (Inl (FirebaseError ''auth/email-already-in-use''))
             (Inl (FirebaseError ''auth/wrong-password''))
             (Inl (FirebaseError ''auth/network-request-failed''))
             (\<lambda>u. Inl (FirebaseError ''auth/too-many-requests''))
             (Inl (FirebaseError ''auth/user-not-found'')))
          (fresh (Some alice)))
     = Inl (FirebaseError ''auth/network-request-failed'')
   \<and> fst (sendEmailVerification
          (stub_sdk (Inl (FirebaseError ''auth/email-already-in-use''))
             (Inl (FirebaseError ''auth/wrong-password''))
             (Inl (FirebaseError ''auth/network-request-failed''))
             (\<lambda>u. Inl (FirebaseError ''auth/too-many-requests''))
             (Inl (FirebaseError ''auth/user-not-found'')))
          (fresh (Some alice)))
     = Inl (FirebaseError ''auth/too-many-requests'')
   \<and> fst (forgotPassword
          (stub_sdk (Inl (FirebaseError ''auth/email-already-in-use''))
             (Inl (FirebaseError ''auth/wrong-password''))
             (Inl (FirebaseError ''auth/network-request-failed''))
             (\<lambda>u. Inl (FirebaseError ''auth/too-many-requests''))
             (Inl (FirebaseError ''auth/user-not-found'')))
          (JsString ''nobody@shop.example'') (fresh None))
     = Inl (FirebaseError ''auth/user-not-found'')"
proof -
  let ?A = "stub_sdk (Inl (FirebaseError ''auth/email-already-in-use''))
             (Inl (FirebaseError ''auth/wrong-password''))
             (Inl (FirebaseError ''auth/network-request-failed''))
             (\<lambda>u. Inl (FirebaseError ''auth/too-many-requests''))
             (Inl (FirebaseError ''auth/user-not-found''))"
  let ?B = "stub_sdk (Inr \<lparr>user = bob\<rparr>) (Inr \<lparr>user = bob\<rparr>)
             (Inl (FirebaseError ''auth/network-request-failed''))
             (\<lambda>u. Inl (FirebaseError ''auth/too-many-requests'')) (Inr ())"
  let ?mail = "JsString ''bob@shop.example''"
  let ?pw = "JsString ''secret''"
  have h1: "sdk_createUserWithEmailAndPassword ?A (auth (self (fresh None))) ?mail ?pw
              (world (fresh None))
            = (Inl (FirebaseError ''auth/email-already-in-use''), None)"
    by (simp add: stub_sdk_def fresh_def)
  have h2: "sdk_createUserWithEmailAndPassword ?B (auth (self (fresh None))) ?mail ?pw
              (world (fresh None))
            = (Inr \<lparr>user = bob\<rparr>, Some bob)
          \<and> sdk_sendEmailVerification ?B (Some (user \<lparr>user = bob\<rparr>)) (Some bob)
            = (Inl (FirebaseError ''auth/too-many-requests''), Some bob)"
    by (simp add: stub_sdk_def fresh_def)
  have h3: "sdk_signInWithEmailAndPassword ?A (auth (self (fresh None))) ?mail ?pw
              (world (fresh None))
            = (Inl (FirebaseError ''auth/wrong-password''), None)"
    by (simp add: stub_sdk_def fresh_def)
  have h4: "sdk_signInWithEmailAndPassword ?B (auth (self (fresh None))) ?mail ?pw
              (world (fresh None))
            = (Inr \<lparr>user = bob\<rparr>, Some bob)
          \<and> \<not> emailVerified (user \<lparr>user = bob\<rparr>)
          \<and> sdk_signOut ?B (auth (self (fresh None))) (Some bob)
            = (Inl (FirebaseError ''auth/network-request-failed''), Some bob)"
    by (simp add: stub_sdk_def fresh_def bob_def)
  have h5: "sdk_signOut ?A (auth (self (fresh (Some alice)))) (world (fresh (Some alice)))
            = (Inl (FirebaseError ''auth/network-request-failed''), Some alice)"
    by (simp add: stub_sdk_def fresh_def)
  have h6: "sdk_sendEmailVerification ?A
              (sdk_currentUser ?A (auth (self (fresh (Some alice)))) (world (fresh (Some alice))))
              (world (fresh (Some alice)))
            = (Inl (FirebaseError ''auth/too-many-requests''), Some alice)"
    by (simp add: stub_sdk_def fresh_def)
  have h7: "sdk_sendPasswordResetEmail ?A (auth (self (fresh None)))
              (JsString ''nobody@shop.example'') (world (fresh None))
            = (Inl (FirebaseError ''auth/user-not-found''), None)"
    by (simp add: stub_sdk_def fresh_def)
  from provider_error_surfaces_unchanged
         [where sdk = ?A and s = "fresh None" and email = ?mail and password = ?pw
            and e = "FirebaseError ''auth/email-already-in-use''" and ?w1.0 = None,
          THEN conjunct1, rule_format, OF h1]
       provider_error_surfaces_unchanged
         [where sdk = ?B and s = "fresh None" and email = ?mail and password = ?pw
            and uc = "\<lparr>user = bob\<rparr>" and ?w1.0 = "Some bob"
            and e = "FirebaseError ''auth/too-many-requests''" and ?w2.0 = "Some bob",
          THEN conjunct2, THEN conjunct1, rule_format, OF h2]
       provider_error_surfaces_unchanged
         [where sdk = ?A and s = "fresh None" and email = ?mail and password = ?pw
            and e = "FirebaseError ''auth/wrong-password''" and ?w1.0 = None,
          THEN conjunct2, THEN conjunct2, THEN conjunct1, rule_format, OF h3]
       provider_error_surfaces_unchanged
         [where sdk = ?B and s = "fresh None" and email = ?mail and password = ?pw
            and uc = "\<lparr>user = bob\<rparr>" and ?w1.0 = "Some bob"
            and e = "FirebaseError ''auth/network-request-failed''" and ?w2.0 = "Some bob",
          THEN conjunct2, THEN conjunct2, THEN conjunct2, THEN conjunct1, rule_format, OF h4]
       provider_error_surfaces_unchanged
         [where sdk = ?A and s = "fresh (Some alice)"
            and e = "FirebaseError ''auth/network-request-failed''" and ?w1.0 = "Some alice",
          THEN conjunct2, THEN conjunct2, THEN conjunct2, THEN conjunct2, THEN conjunct1,
          rule_format, OF h5]
       provider_error_surfaces_unchanged
         [where sdk = ?A and s = "fresh (Some alice)"
            and e = "FirebaseError ''auth/too-many-requests''" and ?w1.0 = "Some alice",
          THEN conjunct2, THEN conjunct2, THEN conjunct2, THEN conjunct2, THEN conjunct2,
          THEN conjunct1, rule_format, OF h6]
       provider_error_surfaces_unchanged
         [where sdk = ?A and s = "fresh None" and email = "JsString ''nobody@shop.example''"
            and e = "FirebaseError ''auth/user-not-found''" and ?w1.0 = None,
          THEN conjunct2, THEN conjunct2, THEN conjunct2, THEN conjunct2, THEN conjunct2,
          THEN conjunct2, rule_format, OF h7]
  show ?thesis
    by simp
qed

text \<open>
  C8.  With no current user, \<open>sendEmailVerification\<close> fails with the SDK's error.
  The service has no check of its own: it reads \<open>currentUser\<close>, passes the absent user
  on to the SDK's \<open>sendEmailVerification\<close>, and the failure is the SDK's rejection of
  that absent user (the second hypothesis), rethrown unchanged after this single call.
\<close>

theorem sendEmailVerification_without_user:
  assumes "sdk_currentUser sdk (auth (self s)) (world s) = None"
    and "sdk_sendEmailVerification sdk None (world s) = (Inl e, w1)"
  shows "sendEmailVerification sdk s =
           (Inl e,
            s\<lparr>world := w1, calls := calls s @ [(SendEmailVerification None, Rejected e)]\<rparr>)"
  using assms by (simp add: sendEmailVerification_run settled_of_def)

theorem sendEmailVerification_without_user_witness:
  "sendEmailVerification
      (stub_sdk (Inl (Error ''unused'')) (Inl (Error ''unused'')) (Inr ())
         (\<lambda>u. case u of None \<Rightarrow> Inl (TypeError ''user is null'') | Some v \<Rightarrow> Inr ()) (Inr ()))
      (fresh None)
     = (Inl (TypeError ''user is null''),
        \<lparr>self = \<lparr>firebaseApp = AppHandle 0, auth = AuthHandle 0\<rparr>, world = None,
         calls = [(SendEmailVerification None, Rejected (TypeError ''user is null''))]\<rparr>)"
proof -
  let ?sdk = "stub_sdk (Inl (Error ''unused'')) (Inl (Error ''unused'')) (Inr ())
     (\<lambda>u. case u of None \<Rightarrow> Inl (TypeError ''user is null'') | Some v \<Rightarrow> Inr ()) (Inr ())"
  have h1: "sdk_currentUser ?sdk (auth (self (fresh None))) (world (fresh None)) = None"
    by (simp add: stub_sdk_def fresh_def)
  have h2: "sdk_sendEmailVerification ?sdk None (world (fresh None))
            = (Inl (TypeError ''user is null''), None)"
    by (simp add: stub_sdk_def fresh_def)
  from sendEmailVerification_without_user [OF h1 h2] show ?thesis
    by (simp add: fresh_def)
qed

text \<open>
  C9.  The fields \<open>firebaseApp\<close> and \<open>auth\<close> are assigned by the constructor and by
  nothing else: after any sequence of calls of the seven methods on a constructed
  service, whatever the arguments and whatever the SDK answers, both fields hold the
  values the constructor gave them.
\<close>

theorem fields_unchanged_after_construction:
  "firebaseApp (self (run sdk cs \<lparr>self = constructor sdk firebaseConfig, world = w, calls = []\<rparr>))
     = sdk_initializeApp sdk firebaseConfig
   \<and> auth (self (run sdk cs \<lparr>self = constructor sdk firebaseConfig, world = w, calls = []\<rparr>))
     = sdk_getAuth sdk (sdk_initializeApp sdk firebaseConfig)"
  by (simp add: run_self constructor_def Let_def)

text \<open>
  C10 (as amended).  \<open>register\<close> makes no check of \<open>emailVerified\<close>: when the SDK
  accepts the creation, what \<open>register\<close> settles with is decided by the verification
  request alone, whatever the flag \<open>b\<close> of the created user is.  It resolves with the
  created user when the request resolves, and fails with the request's error when it is
  rejected.  \<open>login\<close> is where the flag is read: signing in as the same user returns the
  user exactly when \<open>b\<close> is true.
\<close>

theorem register_returns_user_whatever_flag:
  assumes "sdk_createUserWithEmailAndPassword sdk (auth (self s)) email password (world s)
             = (Inr uc, w1)"
    and "emailVerified (user uc) = b"
    and "sdk_sendEmailVerification sdk (Some (user uc)) w1 = (r, w2)"
  shows "fst (register sdk email password s)
           = (case r of Inl e \<Rightarrow> Inl e | Inr u \<Rightarrow> Inr (user uc))
         \<and> (\<forall>t w3. sdk_signInWithEmailAndPassword sdk (auth (self t)) email password (world t)
                      = (Inr uc, w3)
               \<longrightarrow> (fst (login sdk email password t) = Inr (user uc)) = b)"
  using assms by (auto simp: register_run login_run split: prod.splits)

theorem register_returns_user_whatever_flag_witness:
  "fst (register
          (stub_sdk (Inr \<lparr>user = bob\<rparr>) (Inr \<lparr>user = bob\<rparr>) (Inr ()) (\<lambda>u. Inr ()) (Inr ()))
          (JsString ''bob@shop.example'') (JsString ''secret'') (fresh None))
     = Inr bob
   \<and> emailVerified bob = False
   \<and> fst (login
          (stub_sdk (Inr \<lparr>user = bob\<rparr>) (Inr \<lparr>user = bob\<rparr>) (Inr ()) (\<lambda>u. Inr ()) (Inr ()))
          (JsString ''bob@shop.example'') (JsString ''secret'') (fresh None))
     \<noteq> Inr bob"
proof -
  let ?sdk = "stub_sdk (Inr \<lparr>user = bob\<rparr>) (Inr \<lparr>user = bob\<rparr>) (Inr ()) (\<lambda>u. Inr ()) (Inr ())"
  have h1: "sdk_createUserWithEmailAndPassword ?sdk (auth (self (fresh None)))
              (JsString ''bob@shop.example'') (JsString ''secret'') (world (fresh None))
            = (Inr \<lparr>user = bob\<rparr>, Some bob)"
    by (simp add: stub_sdk_def fresh_def)
  have h2: "emailVerified (user \<lparr>user = bob\<rparr>) = False"
    by (simp add: bob_def)
  have h3: "sdk_sendEmailVerification ?sdk (Some (user \<lparr>user = bob\<rparr>)) (Some bob)
            = (Inr (), Some bob)"
    by (simp add: stub_sdk_def)
  have h4: "sdk_signInWithEmailAndPassword ?sdk (auth (self (fresh None)))
              (JsString ''bob@shop.example'') (JsString ''secret'') (world (fresh None))
            = (Inr \<lparr>user = bob\<rparr>, Some bob)"
    by (simp add: stub_sdk_def fresh_def)
  from register_returns_user_whatever_flag [OF h1 h2 h3] h4 h2 show ?thesis
    by auto
qed

text \<open>
  C10 as the spec states it fails where the SDK accepts the creation of an unverified
  user and then rejects the verification request: the freshly created user is not
  returned, \<open>register\<close> fails with the request's error.
\<close>

theorem register_unverified_user_counterexample:
  "sdk_createUserWithEmailAndPassword
      (stub_sdk (Inr \<lparr>user = bob\<rparr>) (Inl (Error ''unused'')) (Inr ())
         (\<lambda>u. Inl (FirebaseError ''auth/network-request-failed'')) (Inr ()))
      (AuthHandle 0) (JsString ''bob@shop.example'') (JsString ''secret'') None
     = (Inr \<lparr>user = bob\<rparr>, Some bob)
   \<and> emailVerified (user \<lparr>user = bob\<rparr>) = False
   \<and> register
        (stub_sdk (Inr \<lparr>user = bob\<rparr>) (Inl (Error ''unused'')) (Inr ())
           (\<lambda>u. Inl (FirebaseError ''auth/network-request-failed'')) (Inr ()))
        (JsString ''bob@shop.example'') (JsString ''secret'') (fresh None)
     = (Inl (FirebaseError ''auth/network-request-failed''),
        \<lparr>self = \<lparr>firebaseApp = AppHandle 0, auth = AuthHandle 0\<rparr>, world = Some bob,
         calls = [(CreateUserWithEmailAndPassword (AuthHandle 0) (JsString ''bob@shop.example'')
                     (JsString ''secret''), Resolved),
                  (SendEmailVerification (Some bob),
                   Rejected (FirebaseError ''auth/network-request-failed''))]\<rparr>)"
  by (simp add: register_run stub_sdk_def fresh_def bob_def settled_of_def)

text \<open>
  C2.  Whatever the argument, \<open>null\<close> and the empty string included, and whatever the
  state, \<open>signInWithGoogle\<close> and \<open>signInWithFacebook\<close> fail with
  \<open>NotImplementedError\<close>; they call no SDK function and change nothing.  The helper that
  throws is the one modelled from the spec above.
\<close>

theorem social_sign_in_not_implemented:
  "signInWithGoogle provider s = (Inl NotImplementedError, s)
   \<and> signInWithFacebook provider s = (Inl NotImplementedError, s)
   \<and> fst (signInWithGoogle JsNull s) = Inl NotImplementedError
   \<and> fst (signInWithFacebook (JsString []) s) = Inl NotImplementedError"
  by (simp add: signInWithGoogle_def signInWithFacebook_def await_then_def js_call_def
      UnimplementedError_def)

end
